theory Spec2Isabelle
  imports Complex_Main
begin

section \<open>Platform primitives used by the scripts\<close>

text \<open>
  The repository holds three versions of one page script: \<^verbatim>\<open>src/app.js\<close>,
  \<^verbatim>\<open>src/unnamed/part_000\<close> and \<^verbatim>\<open>src/unnamed/part_001\<close>. Definitions that embed a
  function of one version carry the suffix \<open>_app\<close>, \<open>_p0\<close> or \<open>_p1\<close>.

  A JavaScript string is modelled as a \<^typ>\<open>string\<close> whose characters are code units
  below 256. An integral number that can be \<^verbatim>\<open>NaN\<close> or infinite is a \<open>jsnum\<close>; integers
  are exact, however large.
\<close>

datatype jsnum = Num int | NaN | PosInf | NegInf

definition is_ws :: "char \<Rightarrow> bool" where
  \<comment> \<open>white space and line terminators of ECMAScript among the code units below 256\<close>
  "is_ws c = (of_char c \<in> {9, 10, 11, 12, 13, 32, 160 :: nat})"

definition trim :: "string \<Rightarrow> string" where
  "trim s = rev (dropWhile is_ws (rev (dropWhile is_ws s)))"

definition digit_val :: "nat \<Rightarrow> char \<Rightarrow> nat option" where
  "digit_val radix c =
     (let n = (of_char c :: nat);
          v = (if 48 \<le> n \<and> n \<le> 57 then Some (n - 48)
               else if 97 \<le> n \<and> n \<le> 122 then Some (n - 87)
               else if 65 \<le> n \<and> n \<le> 90 then Some (n - 55)
               else None)
      in case v of None \<Rightarrow> None | Some d \<Rightarrow> if d < radix then Some d else None)"

fun digits_val :: "nat \<Rightarrow> nat \<Rightarrow> string \<Rightarrow> nat" where
  "digits_val radix acc [] = acc"
| "digits_val radix acc (c # cs) =
     (case digit_val radix c of
        None \<Rightarrow> acc
      | Some d \<Rightarrow> digits_val radix (acc * radix + d) cs)"

definition parseInt :: "string \<Rightarrow> int option" where
  \<comment> \<open>\<^verbatim>\<open>parseInt(s)\<close> with no radix argument; \<open>None\<close> is \<^verbatim>\<open>NaN\<close>\<close>
  "parseInt s =
     (let s1 = dropWhile is_ws s;
          neg = (s1 \<noteq> [] \<and> hd s1 = CHR ''-'');
          s2 = (if s1 \<noteq> [] \<and> (hd s1 = CHR ''-'' \<or> hd s1 = CHR ''+'') then tl s1 else s1);
          hex = (take 2 s2 = ''0x'' \<or> take 2 s2 = ''0X'');
          radix = (if hex then 16 else 10);
          s3 = (if hex then drop 2 s2 else s2);
          ds = takeWhile (\<lambda>c. digit_val radix c \<noteq> None) s3
      in if ds = [] then None
         else Some ((if neg then - 1 else 1) * int (digits_val radix 0 ds)))"

definition parseInt_or0 :: "string \<Rightarrow> int" where
  \<comment> \<open>\<^verbatim>\<open>parseInt(s) || 0\<close>\<close>
  "parseInt_or0 s = (case parseInt s of None \<Rightarrow> 0 | Some n \<Rightarrow> n)"

fun show_nat :: "nat \<Rightarrow> string" where
  "show_nat n =
     (if n < 10 then [char_of (48 + n)]
      else show_nat (n div 10) @ [char_of (48 + n mod 10)])"

declare show_nat.simps [simp del]

definition show_int :: "int \<Rightarrow> string" where
  "show_int i = (if i < 0 then CHR ''-'' # show_nat (nat (- i)) else show_nat (nat i))"

fun show_num :: "jsnum \<Rightarrow> string" where
  "show_num (Num i) = show_int i"
| "show_num NaN = ''NaN''"
| "show_num PosInf = ''Infinity''"
| "show_num NegInf = ''-Infinity''"

section \<open>Numeric counter animation\<close>

record element =
  textContent :: string
  dataset_suffix :: "string option"

subsection \<open>\<^verbatim>\<open>Utils.animateNumber\<close> of \<^verbatim>\<open>src/app.js\<close>\<close>

text \<open>
  The closure \<^verbatim>\<open>animate\<close> captures \<^verbatim>\<open>start\<close>, \<^verbatim>\<open>change\<close>, \<^verbatim>\<open>duration\<close>, \<^verbatim>\<open>easing\<close>
  and \<^verbatim>\<open>startTime\<close>; it is the record \<open>anim\<close>. A pending
  \<^verbatim>\<open>requestAnimationFrame(animate)\<close> is \<open>Some\<close> closure in the field \<open>pending\<close>.
  Targets, durations and times are finite numbers (\<^typ>\<open>real\<close>); a duration of zero makes
  the quotient \<^verbatim>\<open>elapsed / duration\<close> infinite or \<^verbatim>\<open>NaN\<close>, which the second branch of
  \<open>animate_app\<close> writes out.
\<close>

record anim =
  a_start :: int
  a_change :: real
  a_duration :: real
  a_easing :: string
  a_suffix :: string
  a_startTime :: real

record counter =
  el :: element
  pending :: "anim option"

definition easeProgress :: "string \<Rightarrow> real \<Rightarrow> real" where
  \<comment> \<open>\<^verbatim>\<open>easingFunctions[easing] ? easingFunctions[easing](progress) : progress\<close>,
      for easing names that are not properties of \<^verbatim>\<open>Object.prototype\<close>\<close>
  "easeProgress easing progress =
     (if easing = ''easeOutCubic'' then 1 - (1 - progress) ^ 3 else progress)"

definition nonfinite_value :: "int \<Rightarrow> real \<Rightarrow> real \<Rightarrow> jsnum \<times> bool" where
  \<comment> \<open>the frame when \<^verbatim>\<open>duration\<close> is zero: \<^verbatim>\<open>0/0\<close> is \<^verbatim>\<open>NaN\<close> and no comparison with
      \<^verbatim>\<open>NaN\<close> holds; \<^verbatim>\<open>Math.min(Infinity, 1)\<close> is 1; a negative elapsed time gives the
      progress \<^verbatim>\<open>-Infinity\<close>, which both easings keep\<close>
  "nonfinite_value start change elapsed =
     (if elapsed = 0 then (NaN, False)
      else if 0 < elapsed then (Num \<lfloor>real_of_int start + change\<rfloor>, False)
      else ((if 0 < change then NegInf else if change < 0 then PosInf else NaN), True))"

definition animate_app :: "int \<Rightarrow> real \<Rightarrow> real \<Rightarrow> string \<Rightarrow> real \<Rightarrow> jsnum \<times> bool" where
  \<comment> \<open>one call of \<^verbatim>\<open>animate\<close>: the number written to the element, and whether another
      frame is requested\<close>
  "animate_app start change duration easing elapsed =
     (if duration \<noteq> 0 then
        (let progress = min (elapsed / duration) 1;
             ep = easeProgress easing progress
         in (Num \<lfloor>real_of_int start + change * ep\<rfloor>, progress < 1))
      else nonfinite_value start change elapsed)"

definition animateNumber_app :: "element \<Rightarrow> real \<Rightarrow> real \<Rightarrow> string \<Rightarrow> real \<Rightarrow> counter" where
  \<comment> \<open>the last argument is the value of \<^verbatim>\<open>performance.now()\<close>\<close>
  "animateNumber_app e target duration easing now =
     (let start = parseInt_or0 (textContent e);
          change = target - real_of_int start
      in if change = 0 then \<lparr>el = e, pending = None\<rparr>
         else \<lparr>el = e,
               pending = Some \<lparr>a_start = start, a_change = change, a_duration = duration,
                               a_easing = easing, a_suffix = [], a_startTime = now\<rparr>\<rparr>)"

definition frame_app :: "counter \<Rightarrow> real \<Rightarrow> counter" where
  \<comment> \<open>the browser runs the pending frame callback with time stamp \<open>currentTime\<close>\<close>
  "frame_app c currentTime =
     (case pending c of
        None \<Rightarrow> c
      | Some a \<Rightarrow>
          (let elapsed = currentTime - a_startTime a;
               (v, again) = animate_app (a_start a) (a_change a) (a_duration a) (a_easing a) elapsed
           in \<lparr>el = (el c)\<lparr>textContent := show_num v\<rparr>,
               pending = (if again then Some a else None)\<rparr>))"


subsection \<open>\<^verbatim>\<open>Utils.animateNumber\<close> of \<^verbatim>\<open>src/unnamed/part_001\<close>\<close>

definition animate_p1 :: "int \<Rightarrow> real \<Rightarrow> real \<Rightarrow> real \<Rightarrow> jsnum \<times> bool" where
  "animate_p1 start change duration elapsed =
     (if duration \<noteq> 0 then
        (let progress = min (elapsed / duration) 1;
             eased = 1 - (1 - progress) ^ 3
         in (Num \<lfloor>real_of_int start + change * eased\<rfloor>, progress < 1))
      else nonfinite_value start change elapsed)"

definition animateNumber_p1 :: "element \<Rightarrow> real \<Rightarrow> real \<Rightarrow> real \<Rightarrow> counter" where
  "animateNumber_p1 e target duration now =
     (let start = parseInt_or0 (textContent e);
          change = target - real_of_int start;
          suffix = (case dataset_suffix e of None \<Rightarrow> [] | Some s \<Rightarrow> s)
      in \<lparr>el = e,
          pending = Some \<lparr>a_start = start, a_change = change, a_duration = duration,
                          a_easing = ''easeOutCubic'', a_suffix = suffix, a_startTime = now\<rparr>\<rparr>)"

definition frame_p1 :: "counter \<Rightarrow> real \<Rightarrow> counter" where
  "frame_p1 c time =
     (case pending c of
        None \<Rightarrow> c
      | Some a \<Rightarrow>
          (let (v, again) = animate_p1 (a_start a) (a_change a) (a_duration a) (time - a_startTime a)
           in \<lparr>el = (el c)\<lparr>textContent := show_num v @ a_suffix a\<rparr>,
               pending = (if again then Some a else None)\<rparr>))"


subsection \<open>\<^verbatim>\<open>Utils.animateCounter\<close> of \<^verbatim>\<open>src/unnamed/part_000\<close>\<close>

text \<open>
  This version counts in the callback of a 16 ms interval timer and has no variable for
  the elapsed time. \<open>ticker\<close> is the state the callback works on: the captured
  \<^verbatim>\<open>current\<close>, \<^verbatim>\<open>increment\<close> and \<^verbatim>\<open>target\<close>, whether the timer is still set, and the
  element. The arithmetic is exact here; the script adds in binary floating point, where
  the sum of 125 increments of 0.8 stays just below 100.
\<close>

datatype jsreal = Fin real | PlusInf | MinusInf | NotNum

fun js_quot :: "real \<Rightarrow> real \<Rightarrow> jsreal" where
  \<comment> \<open>\<^verbatim>\<open>a / b\<close> for finite operands\<close>
  "js_quot a b =
     (if b \<noteq> 0 then Fin (a / b)
      else if 0 < a then PlusInf else if a < 0 then MinusInf else NotNum)"

fun js_plus :: "jsreal \<Rightarrow> jsreal \<Rightarrow> jsreal" where
  "js_plus (Fin a) (Fin b) = Fin (a + b)"
| "js_plus NotNum _ = NotNum"
| "js_plus _ NotNum = NotNum"
| "js_plus PlusInf MinusInf = NotNum"
| "js_plus MinusInf PlusInf = NotNum"
| "js_plus PlusInf _ = PlusInf"
| "js_plus _ PlusInf = PlusInf"
| "js_plus MinusInf _ = MinusInf"
| "js_plus _ MinusInf = MinusInf"

fun js_ge :: "jsreal \<Rightarrow> real \<Rightarrow> bool" where
  "js_ge (Fin a) t = (t \<le> a)"
| "js_ge PlusInf t = True"
| "js_ge _ t = False"

fun js_floor :: "jsreal \<Rightarrow> jsnum" where
  "js_floor (Fin a) = Num \<lfloor>a\<rfloor>"
| "js_floor PlusInf = PosInf"
| "js_floor MinusInf = NegInf"
| "js_floor NotNum = NaN"

record ticker =
  current :: jsreal
  increment :: jsreal
  t_target :: real
  running :: bool
  t_el :: element

definition animateCounter_p0 :: "element \<Rightarrow> real \<Rightarrow> real \<Rightarrow> ticker" where
  "animateCounter_p0 e target duration =
     (let start = parseInt_or0 (textContent e)
      in \<lparr>current = Fin (real_of_int start),
          increment = js_quot (target - real_of_int start) (duration / 16),
          t_target = target, running = True, t_el = e\<rparr>)"

definition tick_p0 :: "ticker \<Rightarrow> ticker" where
  \<comment> \<open>one run of the interval callback; a cleared timer does not call it\<close>
  "tick_p0 t =
     (if \<not> running t then t
      else
        (let cur = js_plus (current t) (increment t);
             stop = js_ge cur (t_target t);
             cur1 = (if stop then Fin (t_target t) else cur)
         in t\<lparr>current := cur1, running := \<not> stop,
               t_el := (t_el t)\<lparr>textContent := show_num (js_floor cur1)\<rparr>\<rparr>))"


section \<open>Exceptions\<close>

datatype exn = TypeError | SecurityError | Thrown string

section \<open>Testimonials carousel\<close>

text \<open>
  Each slide and each navigation button is represented by one boolean: whether its class
  list holds \<^verbatim>\<open>active\<close>. \<open>autoplay\<close> tells whether an interval timer that calls
  \<^verbatim>\<open>nextSlide\<close> is running. The page as the script finds it is a \<open>carousel_dom\<close>.
\<close>

record carousel_dom =
  cards :: "bool list"
  nav_btns :: "bool list"
  container_present :: bool

record carousel =
  slides :: "bool list"
  navButtons :: "bool list"
  currentSlide :: jsnum
  autoplay :: bool
  nav_bound :: bool
  hover_bound :: bool

record carousel_p0 = carousel +
  totalSlides :: nat


fun idx_eq :: "nat \<Rightarrow> jsnum \<Rightarrow> bool" where
  \<comment> \<open>\<^verbatim>\<open>i === index\<close> for an array position \<open>i\<close>\<close>
  "idx_eq i (Num k) = (int i = k)"
| "idx_eq i _ = False"



fun out_of_range :: "jsnum \<Rightarrow> nat \<Rightarrow> bool" where
  \<comment> \<open>\<^verbatim>\<open>index < 0 || index >= n\<close>\<close>
  "out_of_range (Num k) n = (k < 0 \<or> int n \<le> k)"
| "out_of_range NaN n = False"
| "out_of_range PosInf n = True"
| "out_of_range NegInf n = True"

definition mark :: "jsnum \<Rightarrow> bool list \<Rightarrow> bool list" where
  \<comment> \<open>\<^verbatim>\<open>xs.forEach((x, i) => x.classList.toggle('active', i === index))\<close>\<close>
  "mark index xs = map (\<lambda>i. idx_eq i index) [0..<length xs]"

subsection \<open>\<^verbatim>\<open>src/app.js\<close>\<close>

definition showSlide_app :: "jsnum \<Rightarrow> ('a carousel_scheme) \<Rightarrow> ('a carousel_scheme)" where
  "showSlide_app index c =
     (if out_of_range index (length (slides c)) then c
      else c\<lparr>slides := mark index (slides c),
             navButtons := mark index (navButtons c),
             currentSlide := index\<rparr>)"


definition startAutoplay_app :: "('a carousel_scheme) \<Rightarrow> ('a carousel_scheme)" where
  \<comment> \<open>\<^verbatim>\<open>clearInterval(autoplayTimer)\<close>, then a fresh interval\<close>
  "startAutoplay_app c = c\<lparr>autoplay := True\<rparr>"

definition TestimonialsCarousel_init_app :: "carousel_dom \<Rightarrow> carousel option \<times> exn option" where
  \<comment> \<open>the carousel the call leaves behind, if any, and the exception it throws, if any\<close>
  "TestimonialsCarousel_init_app pg =
     (if length (cards pg) \<le> 1 then (None, None)
      else
        (let c = \<lparr>slides = cards pg, navButtons = nav_btns pg, currentSlide = Num 0,
                  autoplay = False, nav_bound = True, hover_bound = False\<rparr>
         in if \<not> container_present pg then (Some c, Some TypeError)
            else (Some (startAutoplay_app (showSlide_app (Num 0) (c\<lparr>hover_bound := True\<rparr>))),
                  None)))"



subsection \<open>\<^verbatim>\<open>src/unnamed/part_000\<close>\<close>

fun has_item :: "jsnum \<Rightarrow> nat \<Rightarrow> bool" where
  \<comment> \<open>whether \<^verbatim>\<open>xs[index]\<close> is an element of a list of length \<open>n\<close>\<close>
  "has_item (Num k) n = (0 \<le> k \<and> k < int n)"
| "has_item _ n = False"

definition showSlide_p0 :: "jsnum \<Rightarrow> carousel_p0 \<Rightarrow> carousel_p0" where
  "showSlide_p0 index c =
     (let hidden = replicate (length (slides c)) False;
          shown = (case index of
                     Num k \<Rightarrow> if has_item index (length (slides c))
                              then hidden[nat k := True] else hidden
                   | _ \<Rightarrow> hidden)
      in c\<lparr>slides := shown,
            navButtons := mark index (navButtons c),
            currentSlide := index\<rparr>)"



definition stopAutoplay_p0 :: "carousel_p0 \<Rightarrow> carousel_p0" where
  "stopAutoplay_p0 c = c\<lparr>autoplay := False\<rparr>"

definition startAutoplay_p0 :: "carousel_p0 \<Rightarrow> carousel_p0" where
  "startAutoplay_p0 c =
     (let c1 = stopAutoplay_p0 c
      in if 1 < totalSlides c1 then c1\<lparr>autoplay := True\<rparr> else c1)"

definition restartAutoplay_p0 :: "carousel_p0 \<Rightarrow> carousel_p0" where
  "restartAutoplay_p0 c = startAutoplay_p0 (stopAutoplay_p0 c)"

definition setupCarousel_p0 :: "carousel_p0 \<Rightarrow> carousel_p0" where
  "setupCarousel_p0 c =
     (let c1 = c\<lparr>totalSlides := length (slides c)\<rparr>
      in if totalSlides c1 = 0 then c1 else showSlide_p0 (Num 0) c1)"

definition bindEvents_p0 :: "carousel_dom \<Rightarrow> carousel_p0 \<Rightarrow> carousel_p0" where
  "bindEvents_p0 pg c = c\<lparr>nav_bound := True, hover_bound := container_present pg\<rparr>"

definition TestimonialsCarousel_init_p0 :: "carousel_dom \<Rightarrow> carousel_p0 \<times> exn option" where
  \<comment> \<open>no step of the body can throw; the \<^verbatim>\<open>catch\<close> branch is never taken\<close>
  "TestimonialsCarousel_init_p0 pg =
     (let c = \<lparr>slides = cards pg, navButtons = nav_btns pg, currentSlide = Num 0,
               autoplay = False, nav_bound = False, hover_bound = False, totalSlides = 0\<rparr>
      in (startAutoplay_p0 (bindEvents_p0 pg (setupCarousel_p0 c)), None))"



subsection \<open>The carousel invariant\<close>

definition active_indices :: "bool list \<Rightarrow> nat list" where
  "active_indices xs = filter (\<lambda>i. xs ! i) [0..<length xs]"

definition one_active :: "('a carousel_scheme) \<Rightarrow> bool" where
  \<comment> \<open>exactly one slide is active, the current one, and among the navigation buttons
      exactly the one with the same index is active (none, when there is no such button)\<close>
  "one_active c =
     (case currentSlide c of
        Num k \<Rightarrow> 0 \<le> k \<and> active_indices (slides c) = [nat k]
                 \<and> active_indices (navButtons c)
                     = (if nat k < length (navButtons c) then [nat k] else [])
      | _ \<Rightarrow> False)"

definition carousel_ok :: "nat \<Rightarrow> nat \<Rightarrow> ('a carousel_scheme) \<Rightarrow> bool" where
  \<comment> \<open>\<open>n\<close> slides, \<open>m\<close> navigation buttons, and the markers as \<open>one_active\<close> says\<close>
  "carousel_ok n m c = (length (slides c) = n \<and> length (navButtons c) = m \<and> one_active c)"


section \<open>Modal dialog\<close>

text \<open>
  \<open>hidden\<close> is the class \<^verbatim>\<open>hidden\<close> of \<^verbatim>\<open>#consultation-modal\<close>, \<open>aria_hidden\<close> its attribute
  \<^verbatim>\<open>aria-hidden\<close> (\<open>None\<close> when the attribute is not set), \<open>body_overflow\<close> the inline style
  \<^verbatim>\<open>document.body.style.overflow\<close>. \<open>dialog = None\<close> is a page without the modal element.
\<close>

record dialog =
  hidden :: bool
  aria_hidden :: "string option"
  has_input :: bool

record modal_page =
  dialog :: "dialog option"
  body_overflow :: string
  focus_scheduled :: bool

subsection \<open>\<^verbatim>\<open>src/app.js\<close>: the handlers exist only when the element does\<close>

definition openModal_app :: "modal_page \<Rightarrow> modal_page" where
  "openModal_app pg =
     (case dialog pg of
        None \<Rightarrow> pg
      | Some d \<Rightarrow> pg\<lparr>dialog := Some (d\<lparr>hidden := False\<rparr>)\<rparr>)"

definition closeModal_app :: "modal_page \<Rightarrow> modal_page" where
  "closeModal_app pg =
     (case dialog pg of
        None \<Rightarrow> pg
      | Some d \<Rightarrow> pg\<lparr>dialog := Some (d\<lparr>hidden := True\<rparr>)\<rparr>)"

subsection \<open>\<^verbatim>\<open>src/unnamed/part_000\<close>\<close>

definition openModal_p0 :: "modal_page \<Rightarrow> modal_page" where
  "openModal_p0 pg =
     (case dialog pg of
        None \<Rightarrow> pg
      | Some d \<Rightarrow>
          pg\<lparr>dialog := Some (d\<lparr>hidden := False\<rparr>),
              body_overflow := ''hidden'',
              focus_scheduled := (has_input d \<or> focus_scheduled pg)\<rparr>)"


subsection \<open>\<^verbatim>\<open>src/unnamed/part_001\<close>\<close>

definition open_p1 :: "modal_page \<Rightarrow> modal_page" where
  "open_p1 pg =
     (case dialog pg of
        None \<Rightarrow> pg
      | Some d \<Rightarrow>
          pg\<lparr>dialog := Some (d\<lparr>hidden := False, aria_hidden := Some ''false''\<rparr>),
              body_overflow := ''hidden''\<rparr>)"

definition close_p1 :: "modal_page \<Rightarrow> modal_page" where
  "close_p1 pg =
     (case dialog pg of
        None \<Rightarrow> pg
      | Some d \<Rightarrow>
          pg\<lparr>dialog := Some (d\<lparr>hidden := True, aria_hidden := Some ''true''\<rparr>),
              body_overflow := []\<rparr>)"

definition closed_modal :: modal_page where
  \<comment> \<open>a page whose modal is hidden, carries no \<^verbatim>\<open>aria-hidden\<close> attribute, and whose body
      scrolls\<close>
  "closed_modal = \<lparr>dialog = Some \<lparr>hidden = True, aria_hidden = None, has_input = True\<rparr>,
                    body_overflow = [], focus_scheduled = False\<rparr>"

section \<open>Form submission\<close>

text \<open>
  A form control is a \<open>field\<close>; \<open>f_default\<close> is the value \<^verbatim>\<open>form.reset()\<close> restores. The
  submit button is \<open>None\<close> when \<^verbatim>\<open>querySelector('button[type="submit"]')\<close> finds nothing.
  \<open>label\<close> is the content of the button (\<^verbatim>\<open>innerHTML\<close> in \<^verbatim>\<open>src/app.js\<close>,
  \<^verbatim>\<open>textContent\<close> in \<^verbatim>\<open>src/unnamed/part_001\<close>). The answer of the endpoint is a
  \<open>response\<close>: the request fails, the body is not JSON, or the body is JSON whose field
  \<^verbatim>\<open>success\<close> is truthy or falsy.

  The handler is asynchronous. \<open>submission\<close> records one run of it on its own: the alerts
  shown, the requests sent, the form while the request is in flight, the form when the
  handler has finished, the form after the timer of 4000 ms has fired, and the exception
  that ends the handler early, if any.
\<close>

record field =
  f_name :: string
  f_value :: string
  f_default :: string
  f_required :: bool

record button =
  disabled :: bool
  label :: string

record form =
  controls :: "field list"
  submit_btn :: "button option"

datatype response = NetworkError | NotJson | Json bool

record request =
  url :: string
  http_method :: string
  body :: "(string \<times> string) list"

record submission =
  alerts :: "string list"
  requests :: "request list"
  in_flight :: "form option"
  settled :: form
  after_delay :: form
  failure :: "exn option"

definition aborted :: "string list \<Rightarrow> form \<Rightarrow> exn option \<Rightarrow> submission" where
  \<comment> \<open>the handler returns, or throws, before it touches the form\<close>
  "aborted msgs f e = \<lparr>alerts = msgs, requests = [], in_flight = None, settled = f,
                       after_delay = f, failure = e\<rparr>"

definition reset :: "form \<Rightarrow> form" where
  "reset f = f\<lparr>controls := map (\<lambda>x. x\<lparr>f_value := f_default x\<rparr>) (controls f)\<rparr>"

definition set_button :: "button \<Rightarrow> form \<Rightarrow> form" where
  "set_button b f = f\<lparr>submit_btn := Some b\<rparr>"

definition post :: "string \<Rightarrow> form \<Rightarrow> request" where
  \<comment> \<open>the JSON object of the form's entries with the access key added last\<close>
  "post key f = \<lparr>url = ''https://api.web3forms.com/submit'', http_method = ''POST'',
                 body = map (\<lambda>x. (f_name x, f_value x)) (controls f) @ [(''access_key'', key)]\<rparr>"

subsection \<open>\<^verbatim>\<open>FormHandler.attachListener\<close> of \<^verbatim>\<open>src/app.js\<close>\<close>

definition submit_app :: "string \<Rightarrow> form \<Rightarrow> response \<Rightarrow> submission" where
  "submit_app key f resp =
     (if key = ''YOUR_ACCESS_KEY_HERE''
      then aborted [''Please replace 'YOUR_ACCESS_KEY_HERE' in app.js with your Web3Forms access key.''] f None
      else case submit_btn f of
        None \<Rightarrow> aborted [] f (Some TypeError)
      | Some b \<Rightarrow>
          (let originalButtonText = label b;
               sending = set_button \<lparr>disabled = True, label = ''<span>Sending...</span>''\<rparr> f;
               finished = (case resp of
                         Json True \<Rightarrow>
                           reset (set_button
                                   \<lparr>disabled = True, label = ''<span>Sent Successfully!</span>''\<rparr>
                                   sending)
                       | _ \<Rightarrow>
                           set_button \<lparr>disabled = True, label = ''<span>Error! Try Again.</span>''\<rparr>
                             sending)
           in \<lparr>alerts = [], requests = [post key f], in_flight = Some sending, settled = finished,
               after_delay = set_button \<lparr>disabled = False, label = originalButtonText\<rparr> finished,
               failure = None\<rparr>))"

subsection \<open>\<^verbatim>\<open>FormHandler.attach\<close> of \<^verbatim>\<open>src/unnamed/part_001\<close>\<close>

definition blank :: "field \<Rightarrow> bool" where
  \<comment> \<open>the negation of \<^verbatim>\<open>!el.required || el.value.trim()\<close>\<close>
  "blank x = (f_required x \<and> trim (f_value x) = [])"

definition submit_p1 :: "string \<Rightarrow> form \<Rightarrow> response \<Rightarrow> submission" where
  "submit_p1 key f resp =
     (if key = [] then aborted [''Web3Forms key missing''] f None
      else if \<not> list_all (\<lambda>x. \<not> blank x) (controls f)
      then aborted [''Please fill all required controls''] f None
      else case submit_btn f of
        None \<Rightarrow> aborted [] f (Some TypeError)
      | Some b \<Rightarrow>
          (let sending = set_button \<lparr>disabled = True, label = ''Sending...''\<rparr> f;
               finished = (case resp of
                         Json True \<Rightarrow>
                           reset (set_button \<lparr>disabled = True, label = ''Sent Successfully!''\<rparr>
                                   sending)
                       | _ \<Rightarrow>
                           set_button \<lparr>disabled = True, label = ''Error! Try Again''\<rparr> sending)
           in \<lparr>alerts = [], requests = [post key f], in_flight = Some sending, settled = finished,
               after_delay = set_button \<lparr>disabled = False, label = ''Submit''\<rparr> finished,
               failure = None\<rparr>))"

definition contact_form :: form where
  \<comment> \<open>a filled-in contact form whose button reads ``Send Message''\<close>
  "contact_form =
     \<lparr>controls = [\<lparr>f_name = ''name'', f_value = ''Asha'', f_default = [], f_required = True\<rparr>,
                \<lparr>f_name = ''message'', f_value = ''Hello'', f_default = [], f_required = True\<rparr>],
      submit_btn = Some \<lparr>disabled = False, label = ''Send Message''\<rparr>\<rparr>"

definition blank_form :: form where
  \<comment> \<open>the same form with only white space in the required field \<^verbatim>\<open>name\<close>\<close>
  "blank_form =
     \<lparr>controls = [\<lparr>f_name = ''name'', f_value = ''  '', f_default = [], f_required = True\<rparr>,
                \<lparr>f_name = ''message'', f_value = ''Hello'', f_default = [], f_required = True\<rparr>],
      submit_btn = Some \<lparr>disabled = False, label = ''Send Message''\<rparr>\<rparr>"

definition access_key :: string where
  "access_key = ''f172d582-f61e-4dc1-ac3a-c144e252b0dd''"

section \<open>Module runner\<close>

text \<open>
  A module is its \<^verbatim>\<open>init\<close> property: \<open>None\<close> when the module has none, otherwise a
  function that takes the page to the page it leaves behind and to the exception it
  throws, if any. A run of the controller records the page, the console output and the
  positions of the modules whose \<^verbatim>\<open>init\<close> was called.
\<close>

type_synonym 'st module = "('st \<Rightarrow> 'st \<times> exn option) option"

datatype log = Log_error exn | Log_info string

record 'st run =
  page :: 'st
  console :: "log list"
  called :: "nat list"

definition call_init :: "('st \<Rightarrow> 'st \<times> exn option) \<Rightarrow> nat \<Rightarrow> 'st run \<Rightarrow> 'st run \<times> exn option" where
  "call_init init i r =
     (let (s, e) = init (page r) in (r\<lparr>page := s, called := called r @ [i]\<rparr>, e))"

definition log_error :: "exn \<Rightarrow> 'st run \<Rightarrow> 'st run" where
  "log_error e r = r\<lparr>console := console r @ [Log_error e]\<rparr>"

definition log_info :: "string \<Rightarrow> 'st run \<Rightarrow> 'st run" where
  "log_info s r = r\<lparr>console := console r @ [Log_info s]\<rparr>"

definition fresh_run :: "'st \<Rightarrow> 'st run" where
  "fresh_run s = \<lparr>page = s, console = [], called = []\<rparr>"

subsection \<open>\<^verbatim>\<open>App.init\<close> of \<^verbatim>\<open>src/app.js\<close> and \<^verbatim>\<open>App.initializeModules\<close> of \<^verbatim>\<open>src/unnamed/part_000\<close>\<close>

fun forEach_try :: "'st module list \<Rightarrow> nat \<Rightarrow> 'st run \<Rightarrow> 'st run" where
  \<comment> \<open>\<^verbatim>\<open>modules.forEach(module => { try { ... module.init(); } catch (e) { console.error(..., e); } })\<close>,
      from position \<open>i\<close> on\<close>
  "forEach_try [] i r = r"
| "forEach_try (None # ms) i r = forEach_try ms (Suc i) r"
| "forEach_try (Some init # ms) i r =
     (case call_init init i r of
        (r1, None) \<Rightarrow> forEach_try ms (Suc i) r1
      | (r1, Some e) \<Rightarrow> forEach_try ms (Suc i) (log_error e r1))"

definition App_init_app :: "'st module list \<Rightarrow> 'st \<Rightarrow> 'st run \<times> exn option" where
  \<comment> \<open>the listener of \<^verbatim>\<open>DOMContentLoaded\<close>\<close>
  "App_init_app ms s =
     (log_info ''Website Initialized Successfully!'' (forEach_try ms 0 (fresh_run s)), None)"

definition initializeModules_p0 :: "'st module list \<Rightarrow> 'st \<Rightarrow> 'st run \<times> exn option" where
  \<comment> \<open>the two calls after the loop register listeners only\<close>
  "initializeModules_p0 ms s = (forEach_try ms 0 (fresh_run s), None)"

subsection \<open>\<^verbatim>\<open>App.init\<close> of \<^verbatim>\<open>src/unnamed/part_001\<close>\<close>

fun forEach_plain :: "'st module list \<Rightarrow> nat \<Rightarrow> 'st run \<Rightarrow> 'st run \<times> exn option" where
  \<comment> \<open>\<^verbatim>\<open>this.modules.forEach(m => m.init?.())\<close>: an exception leaves the loop\<close>
  "forEach_plain [] i r = (r, None)"
| "forEach_plain (None # ms) i r = forEach_plain ms (Suc i) r"
| "forEach_plain (Some init # ms) i r =
     (case call_init init i r of
        (r1, None) \<Rightarrow> forEach_plain ms (Suc i) r1
      | (r1, Some e) \<Rightarrow> (r1, Some e))"

definition App_init_p1 :: "'st module list \<Rightarrow> 'st \<Rightarrow> 'st run \<times> exn option" where
  "App_init_p1 ms s =
     (case forEach_plain ms 0 (fresh_run s) of
        (r, None) \<Rightarrow> (log_info ''Website Initialized Successfully'' r, None)
      | (r, Some e) \<Rightarrow> (r, Some e))"

definition with_init :: "'st module list \<Rightarrow> nat list" where
  \<comment> \<open>the positions of the modules that have an \<^verbatim>\<open>init\<close>\<close>
  "with_init ms = filter (\<lambda>i. ms ! i \<noteq> None) [0..<length ms]"

definition storage_blocked :: "nat \<Rightarrow> nat \<times> exn option" where
  \<comment> \<open>a module whose \<^verbatim>\<open>init\<close> throws, as \<^verbatim>\<open>ThemeToggle.init\<close> does when the browser denies
      access to \<^verbatim>\<open>localStorage\<close>; the page state counts the initialised modules\<close>
  "storage_blocked s = (s, Some SecurityError)"

definition binds_ok :: "nat \<Rightarrow> nat \<times> exn option" where
  \<comment> \<open>a module whose \<^verbatim>\<open>init\<close> completes\<close>
  "binds_ok s = (Suc s, None)"

section \<open>Theme preference\<close>

text \<open>
  \<open>stored_theme\<close> is \<^verbatim>\<open>localStorage.getItem('theme')\<close>, \<open>color_scheme\<close> the attribute
  \<^verbatim>\<open>data-color-scheme\<close> of the document element, \<open>icon_text\<close> the text of
  \<^verbatim>\<open>.theme-toggle__icon\<close> (\<open>None\<close> when the page has no such element), \<open>prefers_dark\<close> the
  result of the media query. Reading and writing the storage succeed. The two icons are
  written \<open>sun\<close> and \<open>moon\<close>.
\<close>

record theme_page =
  stored_theme :: "string option"
  color_scheme :: "string option"
  icon_text :: "string option"
  toggle_present :: bool
  prefers_dark :: bool

definition sun :: string where "sun = ''sun''"

definition moon :: string where "moon = ''moon''"



definition setTheme :: "string \<Rightarrow> theme_page \<Rightarrow> theme_page" where
  "setTheme theme pg = pg\<lparr>color_scheme := Some theme, stored_theme := Some theme\<rparr>"

definition updateIcon :: "string \<Rightarrow> theme_page \<Rightarrow> theme_page" where
  "updateIcon theme pg =
     (case icon_text pg of
        None \<Rightarrow> pg
      | Some _ \<Rightarrow> pg\<lparr>icon_text := Some (if theme = ''dark'' then sun else moon)\<rparr>)"


subsection \<open>\<^verbatim>\<open>src/app.js\<close> and \<^verbatim>\<open>src/unnamed/part_001\<close>\<close>





subsection \<open>\<^verbatim>\<open>src/unnamed/part_000\<close>\<close>






section \<open>Active navigation link\<close>

text \<open>
  A section has its id, the top of its bounding rectangle relative to the viewport
  (\<^verbatim>\<open>getBoundingClientRect().top\<close>) and its \<^verbatim>\<open>offsetTop\<close> and \<^verbatim>\<open>offsetHeight\<close>. A link has
  its \<^verbatim>\<open>href\<close> attribute (\<open>None\<close> when absent) and the class \<^verbatim>\<open>active-link\<close>.
\<close>

record section_el =
  sec_id :: string
  rect_top :: real
  offsetTop :: real
  offsetHeight :: real

record link =
  href :: "string option"
  active_link :: bool

definition toggle_active :: "string \<Rightarrow> link list \<Rightarrow> link list" where
  \<comment> \<open>every link gets the class exactly when its \<^verbatim>\<open>href\<close> is the target\<close>
  "toggle_active target ls = map (\<lambda>l. l\<lparr>active_link := (href l = Some target)\<rparr>) ls"

definition updateActiveLink_app :: "link list \<Rightarrow> real \<Rightarrow> section_el list \<Rightarrow> link list" where
  "updateActiveLink_app navLinks headerHeight secs =
     (let currentSectionId =
            fold (\<lambda>s cur. if rect_top s < headerHeight + 50 then sec_id s else cur) secs []
      in toggle_active (CHR ''#'' # currentSectionId) navLinks)"





definition last_id :: "(section_el \<Rightarrow> bool) \<Rightarrow> section_el list \<Rightarrow> string" where
  \<comment> \<open>the id of the last section, in document order, that qualifies; empty when none does\<close>
  "last_id q secs = (case filter q secs of [] \<Rightarrow> [] | x # xs \<Rightarrow> sec_id (last (x # xs)))"


section \<open>The page as a whole\<close>

text \<open>
  The state of the four modules above side by side, and the events their listeners
  react to: the initialisation of the theme module, a click on the theme button, a change
  of the system preference, a click on a consultation button, a click on the close
  button, an operation of the carousel, and a scroll recomputation (with the header
  height, \<^verbatim>\<open>window.scrollY\<close> and the sections as measured at that moment). The carousel
  state is \<open>None\<close> in \<^verbatim>\<open>src/app.js\<close> when \<^verbatim>\<open>init\<close> returned early; \<^verbatim>\<open>src/unnamed/part_001\<close>
  has no testimonials module.
\<close>

record 'c site =
  theme :: theme_page
  modal :: modal_page
  car :: 'c
  nav :: "link list"








section \<open>Verified properties\<close>

subsection \<open>Properties of the counter animation\<close>



lemma animate_app_cubic:
  assumes "0 < D"
  shows "animate_app s c D ''easeOutCubic'' e =
         (Num \<lfloor>real_of_int s + c * (1 - (1 - min (e / D) 1) ^ 3)\<rfloor>, min (e / D) 1 < 1)"
  using assms by (simp add: animate_app_def easeProgress_def Let_def)

lemma animate_p1_cubic:
  assumes "0 < D"
  shows "animate_p1 s c D e =
         (Num \<lfloor>real_of_int s + c * (1 - (1 - min (e / D) 1) ^ 3)\<rfloor>, min (e / D) 1 < 1)"
  using assms by (simp add: animate_p1_def Let_def)



lemma animate_app_start:
  assumes "0 < D"
  shows "animate_app 0 100 D ''easeOutCubic'' 0 = (Num 0, True)"
  using assms by (simp add: animate_app_cubic)

lemma animate_app_end:
  assumes "0 < D" "D \<le> e"
  shows "animate_app 0 100 D ''easeOutCubic'' e = (Num 100, False)"
proof -
  have "1 \<le> e / D" using assms by simp
  then have "min (e / D) 1 = 1" by simp
  then show ?thesis using assms by (simp add: animate_app_cubic)
qed




lemma counter_element_app:
  assumes "0 < D" "parseInt_or0 (textContent e0) = 0"
  shows "animateNumber_app e0 100 D ''easeOutCubic'' now
           = \<lparr>el = e0, pending = Some \<lparr>a_start = 0, a_change = 100, a_duration = D,
                 a_easing = ''easeOutCubic'', a_suffix = [], a_startTime = now\<rparr>\<rparr>"
    and "textContent (el (frame_app (animateNumber_app e0 100 D ''easeOutCubic'' now) now)) = ''0''"
    and "now + D \<le> t \<Longrightarrow> frame_app (animateNumber_app e0 100 D ''easeOutCubic'' now) t
           = \<lparr>el = e0\<lparr>textContent := ''100''\<rparr>, pending = None\<rparr>"
proof -
  have n0: "show_num (Num 0) = ''0''" by code_simp
  have n100: "show_num (Num 100) = ''100''" by code_simp
  show c: "animateNumber_app e0 100 D ''easeOutCubic'' now
           = \<lparr>el = e0, pending = Some \<lparr>a_start = 0, a_change = 100, a_duration = D,
                 a_easing = ''easeOutCubic'', a_suffix = [], a_startTime = now\<rparr>\<rparr>"
    using assms(2) by (simp add: animateNumber_app_def)
  show "textContent (el (frame_app (animateNumber_app e0 100 D ''easeOutCubic'' now) now)) = ''0''"
    using animate_app_start [OF assms(1)] n0 by (simp add: c frame_app_def)
  show "frame_app (animateNumber_app e0 100 D ''easeOutCubic'' now) t
           = \<lparr>el = e0\<lparr>textContent := ''100''\<rparr>, pending = None\<rparr>" if "now + D \<le> t"
  proof -
    have "D \<le> t - now" using that by simp
    then have "animate_app 0 100 D ''easeOutCubic'' (t - now) = (Num 100, False)"
      using assms(1) by (simp add: animate_app_end)
    then show ?thesis using n100 by (simp add: c frame_app_def)
  qed
qed



text \<open>
  C10. When \<^verbatim>\<open>Utils.animateNumber\<close> of \<^verbatim>\<open>src/app.js\<close> is called with a target equal to the
  integer the element currently shows (\<^verbatim>\<open>parseInt(element.textContent) || 0\<close>), it returns
  at once: no animation frame is pending afterwards and the element is unchanged, also
  after any later frame of the page.
\<close>

theorem animateNumber_app_same_target:
  assumes "real_of_int (parseInt_or0 (textContent e)) = target"
  shows "animateNumber_app e target duration easing now = \<lparr>el = e, pending = None\<rparr>
       \<and> (\<forall>t. frame_app (animateNumber_app e target duration easing now) t
                = \<lparr>el = e, pending = None\<rparr>)"
  using assms by (simp add: animateNumber_app_def frame_app_def Let_def)

theorem animateNumber_app_same_target_witness:
  "real_of_int (parseInt_or0 (textContent \<lparr>textContent = ''100'', dataset_suffix = None\<rparr>)) = 100
   \<and> animateNumber_app \<lparr>textContent = ''100'', dataset_suffix = None\<rparr> 100 2500 ''easeOutCubic'' 7
       = \<lparr>el = \<lparr>textContent = ''100'', dataset_suffix = None\<rparr>, pending = None\<rparr>"
proof -
  have p: "parseInt_or0 ''100'' = 100" by code_simp
  have h: "real_of_int (parseInt_or0 (textContent \<lparr>textContent = ''100'', dataset_suffix = None\<rparr>)) = 100"
    by (simp add: p)
  show ?thesis
    using h animateNumber_app_same_target [OF h, of 2500 "''easeOutCubic''" 7] by simp
qed

subsection \<open>Properties of the carousel\<close>




lemma length_mark [simp]: "length (mark idx xs) = length xs"
  by (simp add: mark_def)



lemma active_indices_mem:
  "active_indices xs = [k] \<Longrightarrow> k < length xs"
proof -
  assume "active_indices xs = [k]"
  then have "k \<in> set (filter (\<lambda>i. xs ! i) [0..<length xs])" by (simp add: active_indices_def)
  then show ?thesis by simp
qed





lemma autoplay_ok [simp]:
  "carousel_ok n m (c\<lparr>autoplay := b\<rparr>) = carousel_ok n m c"
  by (simp add: carousel_ok_def one_active_def split: jsnum.splits)










lemma autoplay_p0_ok [simp]:
  "carousel_ok n m (stopAutoplay_p0 c) = carousel_ok n m c"
  "carousel_ok n m (startAutoplay_p0 c) = carousel_ok n m c"
  "carousel_ok n m (restartAutoplay_p0 c) = carousel_ok n m c"
  "totalSlides (stopAutoplay_p0 c) = totalSlides c"
  "totalSlides (startAutoplay_p0 c) = totalSlides c"
  "totalSlides (restartAutoplay_p0 c) = totalSlides c"
  by (simp_all add: stopAutoplay_p0_def startAutoplay_p0_def restartAutoplay_p0_def Let_def)








lemma one_active_buttons:
  assumes "one_active c" "length (slides c) \<le> length (navButtons c)"
  shows "\<exists>k. currentSlide c = Num (int k) \<and> active_indices (slides c) = [k]
             \<and> active_indices (navButtons c) = [k]"
proof -
  obtain i where i: "currentSlide c = Num i" "0 \<le> i" "active_indices (slides c) = [nat i]"
    and nav: "active_indices (navButtons c)
                = (if nat i < length (navButtons c) then [nat i] else [])"
    using assms(1) by (auto simp: one_active_def split: jsnum.splits)
  have "nat i < length (slides c)" using i(3) by (rule active_indices_mem)
  then have "active_indices (navButtons c) = [nat i]" using nav assms(2) by simp
  moreover have "currentSlide c = Num (int (nat i))" using i by simp
  ultimately show ?thesis using i(3) by blast
qed

lemma init_app_throws_iff:
  "snd (TestimonialsCarousel_init_app pg) \<noteq> None
     \<longleftrightarrow> 2 \<le> length (cards pg) \<and> \<not> container_present pg"
  by (auto simp: TestimonialsCarousel_init_app_def Let_def)

lemma init_p0_never_throws:
  "snd (TestimonialsCarousel_init_p0 pg) = None"
  by (simp add: TestimonialsCarousel_init_p0_def)

text \<open>
  C5. With two testimonial cards and no \<^verbatim>\<open>#testimonials-carousel\<close> element,
  \<^verbatim>\<open>TestimonialsCarousel.init\<close> of \<^verbatim>\<open>src/app.js\<close> throws a \<^verbatim>\<open>TypeError\<close> after binding the
  navigation buttons and before showing the first slide or starting the timer, whereas
  the same page initialises without an exception in \<^verbatim>\<open>src/unnamed/part_000\<close>, which
  guards the element.
\<close>

theorem carousel_init_app_missing_container:
  "TestimonialsCarousel_init_app
     \<lparr>cards = [False, False], nav_btns = [False, False], container_present = False\<rparr>
   = (Some \<lparr>slides = [False, False], navButtons = [False, False], currentSlide = Num 0,
            autoplay = False, nav_bound = True, hover_bound = False\<rparr>,
      Some TypeError)
   \<and> TestimonialsCarousel_init_p0
     \<lparr>cards = [False, False], nav_btns = [False, False], container_present = False\<rparr>
   = (\<lparr>slides = [True, False], navButtons = [True, False], currentSlide = Num 0,
       autoplay = True, nav_bound = True, hover_bound = False, totalSlides = 2\<rparr>,
      None)"
  by (simp add: TestimonialsCarousel_init_app_def TestimonialsCarousel_init_p0_def
      setupCarousel_p0_def showSlide_p0_def bindEvents_p0_def startAutoplay_p0_def
      stopAutoplay_p0_def mark_def Let_def)

subsection \<open>Properties of the modal and of the form handlers\<close>

lemma modal_p1_open_close:
  assumes "dialog pg = Some d"
  shows "body_overflow (open_p1 pg) = ''hidden''"
    and "dialog (open_p1 pg) = Some (d\<lparr>hidden := False, aria_hidden := Some ''false''\<rparr>)"
    and "body_overflow (close_p1 (open_p1 pg)) = []"
    and "dialog (close_p1 (open_p1 pg)) = Some (d\<lparr>hidden := True, aria_hidden := Some ''true''\<rparr>)"
  using assms by (simp_all add: open_p1_def close_p1_def)

text \<open>
  C7. Opening the modal of a page whose dialog is hidden, has no \<^verbatim>\<open>aria-hidden\<close> attribute
  and whose body scrolls: \<^verbatim>\<open>src/app.js\<close> only removes the class \<^verbatim>\<open>hidden\<close>, the body style
  and the attribute stay as they were; \<^verbatim>\<open>src/unnamed/part_000\<close> suppresses scrolling but
  sets no attribute; \<^verbatim>\<open>src/unnamed/part_001\<close> does both, and its closing clears the
  body style and sets the attribute to \<^verbatim>\<open>true\<close>.
\<close>

theorem modal_open_app_no_scroll_lock:
  "body_overflow (openModal_app closed_modal) = []
   \<and> dialog (openModal_app closed_modal)
       = Some \<lparr>hidden = False, aria_hidden = None, has_input = True\<rparr>
   \<and> body_overflow (openModal_p0 closed_modal) = ''hidden''
   \<and> dialog (openModal_p0 closed_modal)
       = Some \<lparr>hidden = False, aria_hidden = None, has_input = True\<rparr>
   \<and> body_overflow (open_p1 closed_modal) = ''hidden''
   \<and> dialog (open_p1 closed_modal)
       = Some \<lparr>hidden = False, aria_hidden = Some ''false'', has_input = True\<rparr>
   \<and> closeModal_app (openModal_app closed_modal) = closed_modal
   \<and> body_overflow (close_p1 (open_p1 closed_modal)) = []
   \<and> dialog (close_p1 (open_p1 closed_modal))
       = Some \<lparr>hidden = True, aria_hidden = Some ''true'', has_input = True\<rparr>"
  by (simp add: closed_modal_def openModal_app_def closeModal_app_def openModal_p0_def
      open_p1_def close_p1_def)

lemma submit_p1_blank:
  assumes "x \<in> set (controls f)" "f_required x" "trim (f_value x) = []"
  shows "submit_p1 key f resp = aborted (alerts (submit_p1 key f resp)) f None"
    and "requests (submit_p1 key f resp) = []"
    and "settled (submit_p1 key f resp) = f"
    and "after_delay (submit_p1 key f resp) = f"
    and "in_flight (submit_p1 key f resp) = None"
proof -
  have "blank x" using assms by (simp add: blank_def)
  then have "\<not> list_all (\<lambda>x. \<not> blank x) (controls f)"
    using assms(1) by (auto simp: list_all_iff)
  then show "submit_p1 key f resp = aborted (alerts (submit_p1 key f resp)) f None"
    and "requests (submit_p1 key f resp) = []"
    and "settled (submit_p1 key f resp) = f"
    and "after_delay (submit_p1 key f resp) = f"
    and "in_flight (submit_p1 key f resp) = None"
    by (simp_all add: submit_p1_def aborted_def)
qed

lemma submit_app_success:
  assumes "key \<noteq> ''YOUR_ACCESS_KEY_HERE''" "submit_btn f = Some b"
  shows "controls (settled (submit_app key f (Json True)))
           = map (\<lambda>x. x\<lparr>f_value := f_default x\<rparr>) (controls f)"
    and "submit_btn (after_delay (submit_app key f (Json True)))
           = Some \<lparr>disabled = False, label = label b\<rparr>"
    and "controls (after_delay (submit_app key f (Json True)))
           = map (\<lambda>x. x\<lparr>f_value := f_default x\<rparr>) (controls f)"
  using assms by (simp_all add: submit_app_def reset_def set_button_def Let_def)

text \<open>
  C2. A submission whose required field \<^verbatim>\<open>name\<close> holds only white space: the handler of
  \<^verbatim>\<open>src/app.js\<close> sends the POST request and disables and relabels the submit button while
  it is in flight; the handler of \<^verbatim>\<open>src/unnamed/part_001\<close> sends nothing and leaves the
  form as it was.
\<close>

theorem submit_app_blank_required_posts:
  "requests (submit_app access_key blank_form (Json True)) = [post access_key blank_form]
   \<and> in_flight (submit_app access_key blank_form (Json True))
       = Some (set_button \<lparr>disabled = True, label = ''<span>Sending...</span>''\<rparr> blank_form)
   \<and> blank (hd (controls blank_form))
   \<and> requests (submit_p1 access_key blank_form (Json True)) = []
   \<and> settled (submit_p1 access_key blank_form (Json True)) = blank_form"
  by (simp add: submit_app_def submit_p1_def blank_form_def access_key_def aborted_def blank_def
      trim_def is_ws_def Let_def)

text \<open>
  C3. An accepted submission (\<^verbatim>\<open>success: true\<close>) of a form whose submit button reads
  ``Send Message'': after the delay the handler of \<^verbatim>\<open>src/unnamed/part_001\<close> enables the
  button with the fixed label ``Submit'', not the original one; the handler of
  \<^verbatim>\<open>src/app.js\<close> restores ``Send Message''.
\<close>

theorem submit_p1_label_not_restored:
  "submit_btn contact_form = Some \<lparr>disabled = False, label = ''Send Message''\<rparr>
   \<and> submit_btn (after_delay (submit_p1 access_key contact_form (Json True)))
       = Some \<lparr>disabled = False, label = ''Submit''\<rparr>
   \<and> submit_btn (after_delay (submit_app access_key contact_form (Json True)))
       = Some \<lparr>disabled = False, label = ''Send Message''\<rparr>"
  by (simp add: submit_app_def submit_p1_def contact_form_def access_key_def aborted_def blank_def
      trim_def is_ws_def Let_def reset_def set_button_def)

subsection \<open>Properties of the module runner\<close>

lemma with_init_Cons:
  "with_init (m # ms) = (if m \<noteq> None then [0] else []) @ map Suc (with_init ms)"
proof -
  have "[0..<length (m # ms)] = 0 # map Suc [0..<length ms]"
    by (simp add: upt_conv_Cons map_Suc_upt del: upt_Suc)
  then show ?thesis by (simp add: with_init_def filter_map comp_def)
qed

lemma call_init_called:
  "called (fst (call_init init i r)) = called r @ [i]"
  by (simp add: call_init_def split_beta)

lemma forEach_try_called:
  "called (forEach_try ms i r) = called r @ map (\<lambda>j. i + j) (with_init ms)"
proof (induction ms i r rule: forEach_try.induct)
  case (1 i r)
  then show ?case by (simp add: with_init_def)
next
  case (2 ms i r)
  then show ?case by (simp add: with_init_Cons comp_def)
next
  case (3 init ms i r)
  obtain r1 e where c: "call_init init i r = (r1, e)" by (cases "call_init init i r")
  then have r1: "called r1 = called r @ [i]" using call_init_called [of init i r] by simp
  show ?case
  proof (cases e)
    case None
    then show ?thesis using 3(1) [OF c [symmetric] None] c r1
      by (simp add: with_init_Cons comp_def)
  next
    case (Some x)
    then show ?thesis using 3(2) [OF c [symmetric] Some] c r1
      by (simp add: with_init_Cons comp_def log_error_def)
  qed
qed

lemma forEach_try_console:
  "\<exists>more. console (forEach_try ms i r) = console r @ more"
proof (induction ms i r rule: forEach_try.induct)
  case (1 i r)
  then show ?case by simp
next
  case (2 ms i r)
  then show ?case by simp
next
  case (3 init ms i r)
  obtain r1 e where c: "call_init init i r = (r1, e)" by (cases "call_init init i r")
  then have r1: "console r1 = console r" by (auto simp: call_init_def split_beta)
  show ?case
  proof (cases e)
    case None
    then show ?thesis using 3(1) [OF c [symmetric] None] c r1 by simp
  next
    case (Some x)
    then show ?thesis using 3(2) [OF c [symmetric] Some] c r1
      by (auto simp: log_error_def)
  qed
qed

lemma forEach_try_append:
  "forEach_try (ms1 @ ms2) i r = forEach_try ms2 (i + length ms1) (forEach_try ms1 i r)"
  by (induction ms1 i r rule: forEach_try.induct) (simp_all split: prod.splits option.splits)

lemma forEach_try_logs_throw:
  assumes "snd (init (page (forEach_try ms1 0 r))) = Some e"
  shows "Log_error e \<in> set (console (forEach_try (ms1 @ Some init # ms2) 0 r))"
proof -
  let ?r = "forEach_try ms1 0 r"
  obtain r1 where c: "call_init init (length ms1) ?r = (r1, Some e)"
    using assms by (simp add: call_init_def split_beta)
  have "forEach_try (ms1 @ Some init # ms2) 0 r
          = forEach_try ms2 (Suc (length ms1)) (log_error e r1)"
    using c by (simp add: forEach_try_append)
  moreover obtain more where
    "console (forEach_try ms2 (Suc (length ms1)) (log_error e r1)) = console (log_error e r1) @ more"
    using forEach_try_console by blast
  ultimately show ?thesis by (simp add: log_error_def)
qed

lemma App_init_app_isolates:
  "snd (App_init_app ms s) = None"
  "called (fst (App_init_app ms s)) = with_init ms"
  "snd (initializeModules_p0 ms s) = None"
  "called (fst (initializeModules_p0 ms s)) = with_init ms"
  by (simp_all add: App_init_app_def initializeModules_p0_def forEach_try_called log_info_def
      fresh_run_def)

lemma App_init_app_logs:
  assumes "snd (init (page (forEach_try ms1 0 (fresh_run s)))) = Some e"
  shows "Log_error e \<in> set (console (fst (App_init_app (ms1 @ Some init # ms2) s)))"
    and "Log_error e \<in> set (console (fst (initializeModules_p0 (ms1 @ Some init # ms2) s)))"
  using forEach_try_logs_throw [where init = init and ?ms1.0 = ms1 and r = "fresh_run s" and e = e and ?ms2.0 = ms2, OF assms]
  by (simp_all add: App_init_app_def initializeModules_p0_def log_info_def)

text \<open>
  C1. Two modules, the first of which throws from \<^verbatim>\<open>init\<close>: \<^verbatim>\<open>App.init\<close> of
  \<^verbatim>\<open>src/unnamed/part_001\<close> lets the exception escape, logs nothing and never calls the
  \<^verbatim>\<open>init\<close> of the second module; the runners of \<^verbatim>\<open>src/app.js\<close> and of
  \<^verbatim>\<open>src/unnamed/part_000\<close> log the exception and initialise the second module.
\<close>

theorem App_init_p1_stops_at_throw:
  "App_init_p1 [Some storage_blocked, Some binds_ok] 0
     = (\<lparr>page = 0, console = [], called = [0]\<rparr>, Some SecurityError)
   \<and> App_init_app [Some storage_blocked, Some binds_ok] 0
     = (\<lparr>page = 1, console = [Log_error SecurityError,
                                Log_info ''Website Initialized Successfully!''],
         called = [0, 1]\<rparr>, None)
   \<and> initializeModules_p0 [Some storage_blocked, Some binds_ok] 0
     = (\<lparr>page = 1, console = [Log_error SecurityError], called = [0, 1]\<rparr>, None)"
  by (simp add: App_init_p1_def App_init_app_def initializeModules_p0_def fresh_run_def
      call_init_def storage_blocked_def binds_ok_def log_error_def log_info_def)

subsection \<open>Properties of the active-link highlighter\<close>

lemma fold_last_match:
  "fold (\<lambda>s cur. if q s then sec_id s else cur) secs init
     = (if filter q secs = [] then init else last_id q secs)"
proof (induction secs rule: rev_induct)
  case Nil
  then show ?case by simp
next
  case (snoc s secs)
  then show ?case
    by (cases "filter q secs") (simp_all add: last_id_def)
qed

lemma fold_last_match_empty:
  "fold (\<lambda>s cur. if q s then sec_id s else cur) secs [] = last_id q secs"
  by (simp add: fold_last_match last_id_def)

lemma toggle_active_twice [simp]:
  "toggle_active t (toggle_active u ls) = toggle_active t ls"
  by (simp add: toggle_active_def comp_def)



lemma active_iff:
  assumes "l \<in> set (toggle_active t ls)"
  shows "active_link l \<longleftrightarrow> href l = Some t"
  using assms by (auto simp: toggle_active_def)

lemma no_section_no_section_link:
  assumes "filter (\<lambda>s. rect_top s < headerHeight + 50) secs = []"
    and "l \<in> set (updateActiveLink_app navLinks headerHeight secs)"
    and "active_link l"
  shows "href l = Some ''#''"
proof -
  have "last_id (\<lambda>s. rect_top s < headerHeight + 50) secs = []"
    using assms(1) by (simp add: last_id_def)
  then have "l \<in> set (toggle_active ''#'' navLinks)"
    using assms(2) by (simp add: updateActiveLink_app_def fold_last_match_empty)
  then show ?thesis using assms(3) by (simp add: active_iff)
qed


lemma filter_href_distinct:
  assumes "distinct (map href ls)"
  shows "length (filter (\<lambda>l. href l = Some t) ls) \<le> 1"
  using assms
proof (induction ls)
  case Nil
  then show ?case by simp
next
  case (Cons l ls)
  show ?case
  proof (cases "href l = Some t")
    case True
    then have "Some t \<notin> set (map href ls)" using Cons.prems by simp
    then have "\<forall>x \<in> set ls. href x \<noteq> Some t" by force
    then have "filter (\<lambda>l. href l = Some t) ls = []" by (simp add: filter_empty_conv)
    then show ?thesis using True by simp
  next
    case False
    then show ?thesis using Cons by simp
  qed
qed

lemma one_link_for_distinct_hrefs:
  assumes "distinct (map href ls)"
  shows "length (filter active_link (toggle_active t ls)) \<le> 1"
proof -
  have "length (filter active_link (toggle_active t ls))
          = length (filter (\<lambda>l. href l = Some t) ls)"
    by (induction ls) (simp_all add: toggle_active_def)
  then show ?thesis using filter_href_distinct [OF assms, of t] by simp
qed

subsection \<open>Properties of the theme preference\<close>

lemma setTheme_stored [simp]:
  "stored_theme (setTheme t pg) = Some t"
  "stored_theme (updateIcon t pg) = stored_theme pg"
  by (simp_all add: setTheme_def updateIcon_def split: option.splits)





subsection \<open>The timer-driven counter of \<^verbatim>\<open>src/unnamed/part_000\<close>, in exact arithmetic\<close>

lemma animateCounter_p0_start:
  assumes "0 < D" "parseInt_or0 (textContent e) = 0"
  shows "animateCounter_p0 e 100 D
           = \<lparr>current = Fin 0, increment = Fin (1600 / D), t_target = 100, running = True,
              t_el = e\<rparr>"
  using assms by (simp add: animateCounter_p0_def)

lemma tick_p0_running:
  assumes "current t = Fin c" "increment t = Fin i" "running t"
  shows "current (tick_p0 t) = Fin (if t_target t \<le> c + i then t_target t else c + i)"
    and "running (tick_p0 t) = (c + i < t_target t)"
    and "textContent (t_el (tick_p0 t))
           = show_num (Num \<lfloor>if t_target t \<le> c + i then t_target t else c + i\<rfloor>)"
    and "increment (tick_p0 t) = increment t"
    and "t_target (tick_p0 t) = t_target t"
  using assms by (auto simp: tick_p0_def Let_def)

lemma tick_p0_stopped:
  assumes "\<not> running t"
  shows "tick_p0 t = t"
  using assms by (simp add: tick_p0_def)

lemma animateCounter_p0_ticks:
  assumes "0 < D" "parseInt_or0 (textContent e) = 0"
  shows "current ((tick_p0 ^^ k) (animateCounter_p0 e 100 D)) = Fin (min 100 (real k * (1600 / D)))
       \<and> running ((tick_p0 ^^ k) (animateCounter_p0 e 100 D)) = (real k * (1600 / D) < 100)
       \<and> increment ((tick_p0 ^^ k) (animateCounter_p0 e 100 D)) = Fin (1600 / D)
       \<and> t_target ((tick_p0 ^^ k) (animateCounter_p0 e 100 D)) = 100
       \<and> (0 < k \<longrightarrow> textContent (t_el ((tick_p0 ^^ k) (animateCounter_p0 e 100 D)))
                      = show_num (Num \<lfloor>min 100 (real k * (1600 / D))\<rfloor>))"
proof (induction k)
  case 0
  then show ?case using assms by (simp add: animateCounter_p0_start)
next
  case (Suc k)
  let ?t = "(tick_p0 ^^ k) (animateCounter_p0 e 100 D)"
  let ?i = "1600 / D"
  have i: "0 < ?i" using assms(1) by simp
  have cur: "current ?t = Fin (min 100 (real k * ?i))" and run: "running ?t = (real k * ?i < 100)"
    and inc: "increment ?t = Fin ?i" and tgt: "t_target ?t = 100"
    and shown: "0 < k \<longrightarrow> textContent (t_el ?t) = show_num (Num \<lfloor>min 100 (real k * ?i)\<rfloor>)"
    using Suc by simp_all
  have step: "real (Suc k) * ?i = real k * ?i + ?i"
  proof -
    have "real (Suc k) = real k + 1" by simp
    then have "real (Suc k) * ?i = (real k + 1) * ?i" by (rule arg_cong)
    also have "\<dots> = real k * ?i + 1 * ?i" by (rule distrib_right)
    finally show ?thesis by (simp only: mult_1)
  qed
  have e: "(tick_p0 ^^ Suc k) (animateCounter_p0 e 100 D) = tick_p0 ?t" by simp
  show ?case
  proof (cases "real k * ?i < 100")
    case True
    then have r: "running ?t" using run by simp
    have c: "current ?t = Fin (real k * ?i)" using cur True by simp
    note s = tick_p0_running [OF c inc r]
    have c1: "current (tick_p0 ?t) = Fin (min 100 (real (Suc k) * ?i))"
      using s(1) tgt unfolding step by (simp add: min_def)
    have r1: "running (tick_p0 ?t) = (real (Suc k) * ?i < 100)"
      using s(2) tgt unfolding step by simp
    have i1: "increment (tick_p0 ?t) = Fin ?i" using s(4) inc by simp
    have t1: "t_target (tick_p0 ?t) = 100" using s(5) tgt by simp
    have x1: "textContent (t_el (tick_p0 ?t)) = show_num (Num \<lfloor>min 100 (real (Suc k) * ?i)\<rfloor>)"
      using s(3) tgt unfolding step by (simp add: min_def)
    show ?thesis unfolding e using c1 r1 i1 t1 x1 by blast
  next
    case False
    then have "\<not> running ?t" using run by simp
    then have same: "tick_p0 ?t = ?t" by (rule tick_p0_stopped)
    have ge: "100 \<le> real (Suc k) * ?i" using False i unfolding step by linarith
    have k: "0 < k" using False by (cases k) simp_all
    have m: "min 100 (real (Suc k) * ?i) = 100" "min 100 (real k * ?i) = 100"
      using ge False by (simp_all add: min_def)
    have r1: "running ?t = (real (Suc k) * ?i < 100)" using run False ge by linarith
    have x1: "textContent (t_el ?t) = show_num (Num \<lfloor>min 100 (real (Suc k) * ?i)\<rfloor>)"
      using shown k unfolding m by blast
    have c1: "current ?t = Fin (min 100 (real (Suc k) * ?i))" using cur unfolding m .
    show ?thesis unfolding e same using c1 r1 inc tgt x1 by blast
  qed
qed

lemma animateCounter_p0_end:
  assumes "0 < D" "parseInt_or0 (textContent e) = 0" "D \<le> 16 * real k"
  shows "textContent (t_el ((tick_p0 ^^ k) (animateCounter_p0 e 100 D))) = ''100''"
    and "\<not> running ((tick_p0 ^^ k) (animateCounter_p0 e 100 D))"
proof -
  have "100 * D \<le> 1600 * real k" using assms(3) by simp
  then have "100 \<le> real k * 1600 / D" using assms(1) by (simp add: pos_le_divide_eq mult.commute)
  then have ge: "100 \<le> real k * (1600 / D)" by simp
  have k: "0 < k" using assms(1,3) by (cases k) simp_all
  have n100: "show_num (Num 100) = ''100''" by code_simp
  note T = animateCounter_p0_ticks [OF assms(1,2), of k]
  show "textContent (t_el ((tick_p0 ^^ k) (animateCounter_p0 e 100 D))) = ''100''"
    using T k ge n100 by (simp add: min_def)
  show "\<not> running ((tick_p0 ^^ k) (animateCounter_p0 e 100 D))"
    using T ge by simp
qed

lemma animateCounter_p0_mono:
  assumes "0 < D" "parseInt_or0 (textContent e) = 0" "j \<le> k"
  shows "\<exists>a b. current ((tick_p0 ^^ j) (animateCounter_p0 e 100 D)) = Fin a
             \<and> current ((tick_p0 ^^ k) (animateCounter_p0 e 100 D)) = Fin b \<and> a \<le> b"
proof -
  have "0 \<le> 1600 / D" using assms(1) by simp
  then have "real j * (1600 / D) \<le> real k * (1600 / D)"
    using assms(3) by (intro mult_right_mono) simp_all
  then have "min 100 (real j * (1600 / D)) \<le> min 100 (real k * (1600 / D))"
    by (simp add: min_def)
  then show ?thesis
    using animateCounter_p0_ticks [OF assms(1,2), of j] animateCounter_p0_ticks [OF assms(1,2), of k]
    by simp
qed

end
